theory Spec2Isabelle
  imports Complex_Main
begin

section \<open>Errors\<close>

text \<open>
  Every way a call of the program can stop with an exception is a value of this type.
  The three assertions of \<^verbatim>\<open>Battery.charge\<close> raise Python's AssertionError with three
  different messages; they are kept apart under the names the specification uses:
  \<^item> \<open>InvalidRequest\<close>: "You tried to charge or discharge the battery faster than it is able to!"
  \<^item> \<open>OverDischarge\<close>: "You drained the battery, there is no juice left!"
  \<^item> \<open>OverCharge\<close>: "You can't fill the battery over its maximum capacity!"

  The others are the exceptions of the Python runtime and of pandas that the modelled
  code can meet: a float division by zero, \<^verbatim>\<open>math.sqrt\<close> of a negative number (ValueError),
  a label that is not in an index or a keyword argument that was not passed (KeyError),
  the truth value of a Series with several elements (ValueError), the first element of an
  empty list (IndexError), and the read of a local variable that was never assigned
  (UnboundLocalError).
\<close>

datatype error =
    InvalidRequest
  | OverDischarge
  | OverCharge
  | ZeroDivisionError
  | ValueError
  | KeyError
  | IndexError
  | UnboundLocalError

section \<open>The battery (battery\_model.py)\<close>

text \<open>
  The class \<^verbatim>\<open>Battery\<close> is a record of its eight attributes; a method that
  mutates \<^verbatim>\<open>self\<close> takes the record and returns the record it leaves behind, next to
  the exception it raised, if any. Numbers are real numbers, and in this section the
  arithmetic is exact; the section after it has the same methods with every operation
  rounded, as the program's floats are. Infinities and NaN are outside the model.
\<close>

record battery =
  model_name :: string
  max_capacity :: real
  max_charge_rate :: real
  state_of_charge :: real
  round_trip_efficiency :: real
  charge_efficiency :: real
  available_to_discharge :: real
  available_store_cap :: real

text \<open>
  \<^verbatim>\<open>_update_charge_values\<close>: three assignments in a row. The third divides by
  \<^verbatim>\<open>charge_efficiency\<close>; when that is zero Python raises after the first two
  assignments have been made.
\<close>

definition update_charge_values :: "battery \<Rightarrow> real \<Rightarrow> error option \<times> battery" where
  "update_charge_values self proposed_charge =
     (let s1 = self\<lparr>state_of_charge := proposed_charge\<rparr>;
          s2 = s1\<lparr>available_to_discharge := state_of_charge s1 * charge_efficiency s1\<rparr>
      in if charge_efficiency s2 = 0 then (Some ZeroDivisionError, s2)
         else (None, s2\<lparr>available_store_cap :=
                 (max_capacity s2 - state_of_charge s2) / charge_efficiency s2\<rparr>))"

text \<open>
  \<^verbatim>\<open>Battery.__init__\<close>. The class attributes give the values the three state
  attributes have before \<^verbatim>\<open>_update_charge_values\<close> runs (0, 0 and 1). An exception
  in the constructor leaves no object.
\<close>

definition Battery_init :: "string \<Rightarrow> real \<Rightarrow> real \<Rightarrow> real \<Rightarrow> real \<Rightarrow> error + battery" where
  "Battery_init name capacity rate initial_state_of_charge efficiency =
     (if efficiency < 0 then Inl ValueError
      else
        (case update_charge_values
                \<lparr>model_name = name,
                 max_capacity = capacity,
                 max_charge_rate = rate,
                 state_of_charge = 0,
                 round_trip_efficiency = efficiency,
                 charge_efficiency = sqrt efficiency,
                 available_to_discharge = 0,
                 available_store_cap = 1\<rparr>
                initial_state_of_charge of
           (None, self) \<Rightarrow> Inr self
         | (Some e, _) \<Rightarrow> Inl e))"

text \<open>
  \<^verbatim>\<open>Battery.charge\<close>: the rate assertion, the proposed charge with the loss applied
  (a division by a zero efficiency raises), the two bound assertions, then the update.
\<close>

definition proposed_charge :: "battery \<Rightarrow> real \<Rightarrow> error + real" where
  "proposed_charge self request =
     (if request \<ge> 0 then Inr (state_of_charge self + request * charge_efficiency self)
      else if charge_efficiency self = 0 then Inl ZeroDivisionError
      else Inr (state_of_charge self + request / charge_efficiency self))"

definition charge :: "battery \<Rightarrow> real \<Rightarrow> error option \<times> battery" where
  "charge self request =
     (if \<not> \<bar>request\<bar> \<le> max_charge_rate self then (Some InvalidRequest, self)
      else
        (case proposed_charge self request of
           Inl e \<Rightarrow> (Some e, self)
         | Inr p \<Rightarrow>
             if \<not> p \<ge> 0 then (Some OverDischarge, self)
             else if \<not> p \<le> max_capacity self then (Some OverCharge, self)
             else update_charge_values self p))"

text \<open>
  A sequence of \<^verbatim>\<open>charge\<close> calls on one battery, stopped by the first exception:
  the list of the states the battery has after each call that returned.
\<close>

fun charge_seq :: "battery \<Rightarrow> real list \<Rightarrow> battery list" where
  "charge_seq self [] = []"
| "charge_seq self (request # rest) =
     (case charge self request of
        (None, self') \<Rightarrow> self' # charge_seq self' rest
      | (Some e, _) \<Rightarrow> [])"

text \<open>
  What the constructor establishes and every \<^verbatim>\<open>charge\<close> keeps: the efficiency of one
  operation is the positive square root of the round-trip efficiency, and the two derived
  values are the ones \<^verbatim>\<open>_update_charge_values\<close> computes from the state of charge.
\<close>

definition battery_wf :: "battery \<Rightarrow> bool" where
  "battery_wf b \<longleftrightarrow>
     0 < round_trip_efficiency b \<and>
     charge_efficiency b = sqrt (round_trip_efficiency b) \<and>
     available_to_discharge b = state_of_charge b * charge_efficiency b \<and>
     available_store_cap b = (max_capacity b - state_of_charge b) / charge_efficiency b"

text \<open>A battery of capacity 10 and rate 4, holding 1 kWh, round-trip efficiency 1/4.\<close>

definition example_battery :: battery where
  "example_battery =
     \<lparr>model_name = ''B'', max_capacity = 10, max_charge_rate = 4, state_of_charge = 1,
      round_trip_efficiency = 1 / 4, charge_efficiency = 1 / 2,
      available_to_discharge = 1 / 2, available_store_cap = 18\<rparr>"

section \<open>The battery in rounded arithmetic\<close>

text \<open>
  The program computes in binary64 floating point: the result of every addition,
  subtraction, multiplication and division and of \<^verbatim>\<open>math.sqrt\<close> is the exact result,
  rounded. The definitions of this section are those of the section before with the
  rounding \<open>rnd\<close> applied wherever the source performs one of these operations, in the
  order of the source; comparisons, \<^verbatim>\<open>abs\<close> and the unary minus are exact. With the
  identity for \<open>rnd\<close> they are the definitions of the section before; with
  \<open>round_double\<close> they are the program on numbers in the range of binary64.
\<close>

definition update_charge_values_fl ::
  "(real \<Rightarrow> real) \<Rightarrow> battery \<Rightarrow> real \<Rightarrow> error option \<times> battery" where
  "update_charge_values_fl rnd self proposed =
     (let s1 = self\<lparr>state_of_charge := proposed\<rparr>;
          s2 = s1\<lparr>available_to_discharge :=
                    rnd (state_of_charge s1 * charge_efficiency s1)\<rparr>
      in if charge_efficiency s2 = 0 then (Some ZeroDivisionError, s2)
         else (None, s2\<lparr>available_store_cap :=
                 rnd (rnd (max_capacity s2 - state_of_charge s2) / charge_efficiency s2)\<rparr>))"

definition Battery_init_fl ::
  "(real \<Rightarrow> real) \<Rightarrow> string \<Rightarrow> real \<Rightarrow> real \<Rightarrow> real \<Rightarrow> real \<Rightarrow> error + battery" where
  "Battery_init_fl rnd name capacity rate initial_state_of_charge efficiency =
     (if efficiency < 0 then Inl ValueError
      else
        (case update_charge_values_fl rnd
                \<lparr>model_name = name,
                 max_capacity = capacity,
                 max_charge_rate = rate,
                 state_of_charge = 0,
                 round_trip_efficiency = efficiency,
                 charge_efficiency = rnd (sqrt efficiency),
                 available_to_discharge = 0,
                 available_store_cap = 1\<rparr>
                initial_state_of_charge of
           (None, self) \<Rightarrow> Inr self
         | (Some e, _) \<Rightarrow> Inl e))"

definition proposed_charge_fl :: "(real \<Rightarrow> real) \<Rightarrow> battery \<Rightarrow> real \<Rightarrow> error + real" where
  "proposed_charge_fl rnd self request =
     (if request \<ge> 0 then
        Inr (rnd (state_of_charge self + rnd (request * charge_efficiency self)))
      else if charge_efficiency self = 0 then Inl ZeroDivisionError
      else Inr (rnd (state_of_charge self + rnd (request / charge_efficiency self))))"

definition charge_fl :: "(real \<Rightarrow> real) \<Rightarrow> battery \<Rightarrow> real \<Rightarrow> error option \<times> battery" where
  "charge_fl rnd self request =
     (if \<not> \<bar>request\<bar> \<le> max_charge_rate self then (Some InvalidRequest, self)
      else
        (case proposed_charge_fl rnd self request of
           Inl e \<Rightarrow> (Some e, self)
         | Inr p \<Rightarrow>
             if \<not> p \<ge> 0 then (Some OverDischarge, self)
             else if \<not> p \<le> max_capacity self then (Some OverCharge, self)
             else update_charge_values_fl rnd self p))"






section \<open>The hourly series (a pandas DataFrame with a DatetimeIndex)\<close>

text \<open>
  A pandas Timestamp of the time-zone aware index: the instant it denotes
  (\<^verbatim>\<open>Timestamp.value\<close>, nanoseconds since the epoch in UTC), which is what two labels are
  compared by, and the attributes of its local time that the program reads: the calendar
  date, the hour of the day (0 to 23) and the day of the week (Monday is 0, Sunday is 6).
  The two hours of a night on which the clocks are set back share the date and the hour
  and differ in the instant.
\<close>

record timestamp =
  ts_value :: int
  year :: int
  month :: int
  day :: int
  hour :: int
  dayofweek :: int

text \<open>
  A frame is the list of its rows, in index order. \<open>model_row\<close> is a row of the frame
  \<^verbatim>\<open>simulate\<close> receives; \<open>row\<close> has the pricing columns \<^verbatim>\<open>simulate\<close> adds before it
  steps; \<open>stepped_row\<close> has the four columns the stepping function writes;
  \<open>result_row\<close> has the column added after the stepping.
\<close>

record model_row =
  m_name :: timestamp
  m_usage_kwh :: real
  m_lbmp_mwhr :: real

record row =
  row_name :: timestamp
  usage_kwh :: real
  lbmp_mwhr :: real
  lbmp_kwh :: real
  nyseg_delivery_charge :: real
  apparent_price :: real

record stepped_row = row +
  charge_decision :: real
  state_of_charge_kwh :: real
  available_to_discharge_kwh :: real
  available_storage_capacity_kwh :: real

record result_row = stepped_row +
  net_electricity_purchased :: real

text \<open>
  \<^verbatim>\<open>df[column].loc[label]\<close>: KeyError when no row has the label. When several rows
  have it pandas gives a Series, and both uses the program makes of the value (the
  arguments of \<^verbatim>\<open>min\<close>, the condition of an \<^verbatim>\<open>if\<close>) then raise ValueError.
\<close>

definition loc :: "row list \<Rightarrow> timestamp \<Rightarrow> (row \<Rightarrow> real) \<Rightarrow> error + real" where
  "loc df label column =
     (case filter (\<lambda>r. row_name r = label) df of
        [] \<Rightarrow> Inl KeyError
      | [r] \<Rightarrow> Inr (column r)
      | _ \<Rightarrow> Inl ValueError)"

text \<open>
  \<^verbatim>\<open>df.loc["year-month-day"]\<close>: the rows of that calendar date, KeyError when there
  are none.
\<close>

definition loc_date :: "row list \<Rightarrow> timestamp \<Rightarrow> error + row list" where
  "loc_date df t =
     (case filter (\<lambda>r. year (row_name r) = year t \<and> month (row_name r) = month t \<and>
                        day (row_name r) = day t) df of
        [] \<Rightarrow> Inl KeyError
      | rs \<Rightarrow> Inr rs)"

text \<open>
  \<^verbatim>\<open>Series.quantile\<close> belongs to pandas, not to the program: the controller takes it as
  a parameter, a function from the values and the quantile to a number or an exception.
  \<open>linear_quantile\<close> is pandas' default (linear interpolation between the two nearest
  order statistics, ValueError for a quantile outside \<open>[0, 1]\<close>); it serves in the
  concrete examples, all on non-empty data. On an empty Series pandas gives NaN, which the
  reals do not have; 0 stands in for it.
\<close>

type_synonym quantile = "real list \<Rightarrow> real \<Rightarrow> error + real"

definition linear_quantile :: quantile where
  "linear_quantile xs q =
     (if q < 0 \<or> 1 < q then Inl ValueError
      else if xs = [] then Inr 0
      else
        (let s = sort xs;
             pos = q * real (length s - 1);
             lo = nat \<lfloor>pos\<rfloor>;
             hi = nat \<lceil>pos\<rceil>
         in Inr (s ! lo + (s ! hi - s ! lo) * (pos - real lo))))"

section \<open>The controllers (battery\_controller.py)\<close>

record controller_peaksimple =
  peak_hours :: "int list"
  trough_hour :: int

record controller_dailythresh =
  thresh_high_quant :: real
  thresh_low_quant :: real
  thresh_high_price :: real
  thresh_low_price :: real

datatype controller =
    PeakSimple controller_peaksimple
  | DailyThresh controller_dailythresh

text \<open>
  \<^verbatim>\<open>controller_peaksimple.decide\<close>. The usage is looked up only in the first branch.
  The method assigns to no attribute, so it returns the request alone.
\<close>

definition peaksimple_decide ::
  "controller_peaksimple \<Rightarrow> row list \<Rightarrow> timestamp \<Rightarrow> battery \<Rightarrow> error + real" where
  "peaksimple_decide self df cur_datetime battery_obj =
     (if hour cur_datetime \<in> set (peak_hours self) \<and> dayofweek cur_datetime \<le> 4 then
        (case loc df cur_datetime usage_kwh of
           Inl e \<Rightarrow> Inl e
         | Inr u \<Rightarrow>
             Inr (- 1 * min (max_charge_rate battery_obj)
                            (min (available_to_discharge battery_obj) u)))
      else if hour cur_datetime \<ge> trough_hour self then
        Inr (min (max_charge_rate battery_obj) (available_store_cap battery_obj))
      else Inr 0)"

text \<open>
  \<^verbatim>\<open>controller_dailythresh.update_thresh\<close>: two assignments, each of a quantile of the
  apparent prices of the frame it is given. An exception in the second leaves the first
  assignment made.
\<close>

definition update_thresh ::
  "quantile \<Rightarrow> controller_dailythresh \<Rightarrow> row list
     \<Rightarrow> error option \<times> controller_dailythresh" where
  "update_thresh quantile self df =
     (case quantile (map apparent_price df) (thresh_high_quant self) of
        Inl e \<Rightarrow> (Some e, self)
      | Inr h \<Rightarrow>
          (let s1 = self\<lparr>thresh_high_price := h\<rparr>
           in case quantile (map apparent_price df) (thresh_low_quant s1) of
                Inl e \<Rightarrow> (Some e, s1)
              | Inr l \<Rightarrow> (None, s1\<lparr>thresh_low_price := l\<rparr>)))"

text \<open>
  \<^verbatim>\<open>controller_dailythresh.__init__\<close>: the class attributes give the two prices
  their values before \<^verbatim>\<open>update_thresh\<close> runs (1 and 0); \<^verbatim>\<open>update_thresh\<close> gets
  the frame the constructor was given, whole.
\<close>

definition dailythresh_init ::
  "quantile \<Rightarrow> row list \<Rightarrow> real \<Rightarrow> real \<Rightarrow> error + controller_dailythresh" where
  "dailythresh_init quantile df high_quant low_quant =
     (case update_thresh quantile
             \<lparr>thresh_high_quant = high_quant, thresh_low_quant = low_quant,
              thresh_high_price = 1, thresh_low_price = 0\<rparr> df of
        (None, self) \<Rightarrow> Inr self
      | (Some e, _) \<Rightarrow> Inl e)"

text \<open>
  \<^verbatim>\<open>controller_dailythresh.decide\<close>: at hour 0 the thresholds are recomputed from the
  rows of the current date; then the decision is made from the current price. The
  controller is returned next to the request, since the method may have assigned to it.
\<close>

definition dailythresh_request ::
  "controller_dailythresh \<Rightarrow> row list \<Rightarrow> timestamp \<Rightarrow> battery \<Rightarrow> error + real" where
  "dailythresh_request self df cur_datetime battery_obj =
     (case loc df cur_datetime apparent_price of
        Inl e \<Rightarrow> Inl e
      | Inr cur_price \<Rightarrow>
          if cur_price > thresh_high_price self then
            (case loc df cur_datetime usage_kwh of
               Inl e \<Rightarrow> Inl e
             | Inr u \<Rightarrow>
                 Inr (- 1 * min (max_charge_rate battery_obj)
                                (min (available_to_discharge battery_obj) u)))
          else if cur_price < thresh_low_price self then
            Inr (min (max_charge_rate battery_obj) (available_store_cap battery_obj))
          else Inr 0)"

definition dailythresh_decide ::
  "quantile \<Rightarrow> controller_dailythresh \<Rightarrow> row list \<Rightarrow> timestamp \<Rightarrow> battery
     \<Rightarrow> (error + real) \<times> controller_dailythresh" where
  "dailythresh_decide quantile self df cur_datetime battery_obj =
     (if hour cur_datetime = 0 then
        (case loc_date df cur_datetime of
           Inl e \<Rightarrow> (Inl e, self)
         | Inr day_df \<Rightarrow>
             (case update_thresh quantile self day_df of
                (Some e, self') \<Rightarrow> (Inl e, self')
              | (None, self') \<Rightarrow>
                  (dailythresh_request self' df cur_datetime battery_obj, self')))
      else (dailythresh_request self df cur_datetime battery_obj, self))"

text \<open>
  The call \<^verbatim>\<open>controller.decide(...)\<close> of the driver, dispatched on the class of the
  controller.
\<close>

definition decide ::
  "quantile \<Rightarrow> controller \<Rightarrow> row list \<Rightarrow> timestamp \<Rightarrow> battery
     \<Rightarrow> (error + real) \<times> controller" where
  "decide quantile c df cur_datetime battery_obj =
     (case c of
        PeakSimple p \<Rightarrow> (peaksimple_decide p df cur_datetime battery_obj, PeakSimple p)
      | DailyThresh d \<Rightarrow>
          (case dailythresh_decide quantile d df cur_datetime battery_obj of
             (r, d') \<Rightarrow> (r, DailyThresh d')))"

text \<open>
  \<^verbatim>\<open>make_controller\<close>. The keyword arguments are a dictionary: a key that was not
  passed raises KeyError. There is no \<^verbatim>\<open>else\<close> branch: for any other type
  \<^verbatim>\<open>obj\<close> is never assigned and \<^verbatim>\<open>return obj\<close> raises UnboundLocalError.
\<close>

record kwargs =
  kw_df :: "row list option"
  kw_peak_hours :: "int list option"
  kw_trough_hour :: "int option"
  kw_thresh_high_quant :: "real option"
  kw_thresh_low_quant :: "real option"

definition make_controller :: "quantile \<Rightarrow> string \<Rightarrow> kwargs \<Rightarrow> error + controller" where
  "make_controller quantile controller_type kw =
     (if controller_type = ''daily_threshold'' then
        (case (kw_df kw, kw_thresh_high_quant kw, kw_thresh_low_quant kw) of
           (Some df, Some h, Some l) \<Rightarrow>
             (case dailythresh_init quantile df h l of
                Inl e \<Rightarrow> Inl e
              | Inr obj \<Rightarrow> Inr (DailyThresh obj))
         | _ \<Rightarrow> Inl KeyError)
      else if controller_type = ''simple_peak'' then
        (case (kw_peak_hours kw, kw_trough_hour kw) of
           (Some p, Some t) \<Rightarrow> Inr (PeakSimple \<lparr>peak_hours = p, trough_hour = t\<rparr>)
         | _ \<Rightarrow> Inl KeyError)
      else Inl UnboundLocalError)"

section \<open>The simulation driver (virtual\_battery.py)\<close>

text \<open>
  The parameter dictionary \<^verbatim>\<open>ui_dict\<close>, with the keys \<^verbatim>\<open>simulate\<close> reads before it
  computes the summary; \<^verbatim>\<open>set_params\<close> always provides every one of them.
\<close>

record ui_dict =
  ui_delivery_charge_peak :: real
  ui_delivery_charge_offpeak :: real
  ui_peak_price_hours :: "int list"
  ui_battery_model_name :: string
  ui_battery_max_capacity :: real
  ui_battery_max_charge_rate :: real
  ui_battery_initial_state_of_charge :: real
  ui_battery_round_trip_efficiency :: real
  ui_controller_type :: string
  ui_thresh_high_quant :: real
  ui_thresh_low_quant :: real
  ui_peak_hours :: "int list"
  ui_trough_hour :: int

text \<open>
  The pricing columns: the wholesale price per kWh, the delivery charge (the peak rate
  from the first to the last of \<^verbatim>\<open>peak_price_hours\<close> on weekdays, the off-peak rate
  otherwise) and their sum. Taking the first element of an empty \<^verbatim>\<open>peak_price_hours\<close>
  raises IndexError.
\<close>

definition price_row :: "ui_dict \<Rightarrow> model_row \<Rightarrow> row" where
  "price_row ui r =
     (let k = m_lbmp_mwhr r / 1000;
          peak = (hour (m_name r) \<ge> hd (ui_peak_price_hours ui) \<and>
                  hour (m_name r) \<le> last (ui_peak_price_hours ui) \<and>
                  dayofweek (m_name r) \<le> 4);
          d = (if peak then ui_delivery_charge_peak ui else ui_delivery_charge_offpeak ui)
      in \<lparr>row_name = m_name r, usage_kwh = m_usage_kwh r, lbmp_mwhr = m_lbmp_mwhr r,
          lbmp_kwh = k, nyseg_delivery_charge = d, apparent_price = k + d\<rparr>)"

definition add_pricing :: "ui_dict \<Rightarrow> model_row list \<Rightarrow> error + row list" where
  "add_pricing ui model_df =
     (if ui_peak_price_hours ui = [] then Inl IndexError
      else Inr (map (price_row ui) model_df))"

text \<open>
  \<^verbatim>\<open>step_result_df\<close>, the function applied to every row: it writes the state of the
  battery into the row, asks the controller, charges the battery and writes the
  decision. An exception of \<^verbatim>\<open>decide\<close> or \<^verbatim>\<open>charge\<close> ends the run. The battery and
  the controller are objects the function mutates: they are returned with the row.
\<close>

definition step_result_df ::
  "quantile \<Rightarrow> row list \<Rightarrow> row \<Rightarrow> battery \<Rightarrow> controller
     \<Rightarrow> error + (stepped_row \<times> battery \<times> controller)" where
  "step_result_df quantile bat_df r battery c =
     (case decide quantile c bat_df (row_name r) battery of
        (Inl e, _) \<Rightarrow> Inl e
      | (Inr decision, c') \<Rightarrow>
          (case charge battery decision of
             (Some e, _) \<Rightarrow> Inl e
           | (None, battery') \<Rightarrow>
               Inr (\<lparr>row_name = row_name r, usage_kwh = usage_kwh r,
                      lbmp_mwhr = lbmp_mwhr r, lbmp_kwh = lbmp_kwh r,
                      nyseg_delivery_charge = nyseg_delivery_charge r,
                      apparent_price = apparent_price r,
                      charge_decision = decision,
                      state_of_charge_kwh = state_of_charge battery,
                      available_to_discharge_kwh = available_to_discharge battery,
                      available_storage_capacity_kwh = available_store_cap battery\<rparr>,
                    battery', c')))"

text \<open>
  \<^verbatim>\<open>result_df.apply(..., axis=1)\<close>: the stepping function is called on the rows one
  after the other, in the order of the index, each call starting from the battery and
  the controller the call before left. What pandas documents is the call on every row;
  that each row is visited once and that what the function writes into the row shows in
  the frame afterwards is how the program uses it, and is taken as given here.
\<close>

fun apply_rows ::
  "quantile \<Rightarrow> row list \<Rightarrow> row list \<Rightarrow> battery \<Rightarrow> controller
     \<Rightarrow> error + stepped_row list" where
  "apply_rows quantile bat_df [] battery c = Inr []"
| "apply_rows quantile bat_df (r # rest) battery c =
     (case step_result_df quantile bat_df r battery c of
        Inl e \<Rightarrow> Inl e
      | Inr (r', battery', c') \<Rightarrow>
          (case apply_rows quantile bat_df rest battery' c' of
             Inl e \<Rightarrow> Inl e
           | Inr out \<Rightarrow> Inr (r' # out)))"

definition add_net :: "stepped_row \<Rightarrow> result_row" where
  "add_net r =
     \<lparr>row_name = row_name r, usage_kwh = usage_kwh r,
      lbmp_mwhr = lbmp_mwhr r, lbmp_kwh = lbmp_kwh r,
      nyseg_delivery_charge = nyseg_delivery_charge r,
      apparent_price = apparent_price r,
      charge_decision = charge_decision r,
      state_of_charge_kwh = state_of_charge_kwh r,
      available_to_discharge_kwh = available_to_discharge_kwh r,
      available_storage_capacity_kwh = available_storage_capacity_kwh r,
      net_electricity_purchased = usage_kwh r + charge_decision r\<rparr>"

text \<open>
  \<^verbatim>\<open>simulate\<close>, up to the frame it returns: pricing, battery, controller, stepping,
  net purchases. The summary statistics computed from the finished frame are not
  modelled; they do not change the frame.
\<close>

definition simulate :: "quantile \<Rightarrow> ui_dict \<Rightarrow> model_row list \<Rightarrow> error + result_row list" where
  "simulate quantile ui model_df =
     (case add_pricing ui model_df of
        Inl e \<Rightarrow> Inl e
      | Inr result_df \<Rightarrow>
          (case Battery_init (ui_battery_model_name ui) (ui_battery_max_capacity ui)
                  (ui_battery_max_charge_rate ui) (ui_battery_initial_state_of_charge ui)
                  (ui_battery_round_trip_efficiency ui) of
             Inl e \<Rightarrow> Inl e
           | Inr battery \<Rightarrow>
               (case make_controller quantile (ui_controller_type ui)
                       \<lparr>kw_df = Some result_df,
                        kw_peak_hours = Some (ui_peak_hours ui),
                        kw_trough_hour = Some (ui_trough_hour ui),
                        kw_thresh_high_quant = Some (ui_thresh_high_quant ui),
                        kw_thresh_low_quant = Some (ui_thresh_low_quant ui)\<rparr> of
                  Inl e \<Rightarrow> Inl e
                | Inr c \<Rightarrow>
                    (case apply_rows quantile result_df result_df battery c of
                       Inl e \<Rightarrow> Inl e
                     | Inr stepped \<Rightarrow> Inr (map add_net stepped)))))"

section \<open>Concrete data for the examples\<close>

text \<open>The schedule of the user defaults: peak hours 16 and 17, trough hour 2.\<close>

definition example_peaksimple :: controller_peaksimple where
  "example_peaksimple = \<lparr>peak_hours = [16, 17], trough_hour = 2\<rparr>"

text \<open>Saturday 17 March 2018 and Tuesday 20 March 2018, both at 16:00.\<close>

definition saturday_16 :: timestamp where
  "saturday_16 =
     \<lparr>ts_value = 1521316800000000000,
      year = 2018, month = 3, day = 17, hour = 16, dayofweek = 5\<rparr>"

definition tuesday_16 :: timestamp where
  "tuesday_16 =
     \<lparr>ts_value = 1521576000000000000,
      year = 2018, month = 3, day = 20, hour = 16, dayofweek = 1\<rparr>"

definition tuesday_17 :: timestamp where
  "tuesday_17 =
     \<lparr>ts_value = 1521579600000000000,
      year = 2018, month = 3, day = 20, hour = 17, dayofweek = 1\<rparr>"

definition flat_row :: "timestamp \<Rightarrow> real \<Rightarrow> real \<Rightarrow> row" where
  "flat_row t u p =
     \<lparr>row_name = t, usage_kwh = u, lbmp_mwhr = 0, lbmp_kwh = 0,
      nyseg_delivery_charge = p, apparent_price = p\<rparr>"

definition weekend_df :: "row list" where
  "weekend_df = [flat_row saturday_16 (1 / 4) 1, flat_row tuesday_16 (1 / 4) 1]"

text \<open>
  A series that begins late on Monday 19 March 2018 and runs into Tuesday: apparent
  prices 1 and 2 on Monday, 5 and 3 on Tuesday.
\<close>

definition monday_22 :: timestamp where
  "monday_22 =
     \<lparr>ts_value = 1521511200000000000,
      year = 2018, month = 3, day = 19, hour = 22, dayofweek = 0\<rparr>"

definition monday_23 :: timestamp where
  "monday_23 =
     \<lparr>ts_value = 1521514800000000000,
      year = 2018, month = 3, day = 19, hour = 23, dayofweek = 0\<rparr>"

definition tuesday_0 :: timestamp where
  "tuesday_0 =
     \<lparr>ts_value = 1521518400000000000,
      year = 2018, month = 3, day = 20, hour = 0, dayofweek = 1\<rparr>"

definition tuesday_1 :: timestamp where
  "tuesday_1 =
     \<lparr>ts_value = 1521522000000000000,
      year = 2018, month = 3, day = 20, hour = 1, dayofweek = 1\<rparr>"

definition two_day_df :: "row list" where
  "two_day_df =
     [flat_row monday_22 1 1, flat_row monday_23 1 2,
      flat_row tuesday_0 1 5, flat_row tuesday_1 1 3]"

text \<open>A run of two peak hours with the fixed-schedule controller.\<close>

definition example_ui :: ui_dict where
  "example_ui =
     \<lparr>ui_delivery_charge_peak = 3 / 10, ui_delivery_charge_offpeak = 1 / 10,
      ui_peak_price_hours = [16, 17],
      ui_battery_model_name = ''B'', ui_battery_max_capacity = 10,
      ui_battery_max_charge_rate = 4, ui_battery_initial_state_of_charge = 1,
      ui_battery_round_trip_efficiency = 1 / 4,
      ui_controller_type = ''simple_peak'',
      ui_thresh_high_quant = 1, ui_thresh_low_quant = 0,
      ui_peak_hours = [16, 17], ui_trough_hour = 2\<rparr>"

definition example_model_df :: "model_row list" where
  "example_model_df =
     [\<lparr>m_name = tuesday_16, m_usage_kwh = 1 / 4, m_lbmp_mwhr = 100\<rparr>,
      \<lparr>m_name = tuesday_17, m_usage_kwh = 1, m_lbmp_mwhr = 200\<rparr>]"

text \<open>
  Sunday 4 November 2018, when the clocks of America/New\_York are set back at 02:00:
  the hour from 01:00 occurs twice, first in daylight time (05:00 UTC), then in standard
  time (06:00 UTC). A frame of these two hours, and the parameters of a run over it with
  the threshold controller.
\<close>

definition sunday_1_edt :: timestamp where
  "sunday_1_edt =
     \<lparr>ts_value = 1541307600000000000,
      year = 2018, month = 11, day = 4, hour = 1, dayofweek = 6\<rparr>"

definition sunday_1_est :: timestamp where
  "sunday_1_est =
     \<lparr>ts_value = 1541311200000000000,
      year = 2018, month = 11, day = 4, hour = 1, dayofweek = 6\<rparr>"

definition fallback_df :: "row list" where
  "fallback_df = [flat_row sunday_1_edt 1 (1 / 5), flat_row sunday_1_est 1 (3 / 10)]"





section \<open>Properties of the battery\<close>

lemma sqrt_quarter: "sqrt (1 / 4) = 1 / 2"
  by (simp add: real_sqrt_divide)

lemma example_battery_init: "Battery_init ''B'' 10 4 1 (1 / 4) = Inr example_battery"
  by (simp add: Battery_init_def update_charge_values_def example_battery_def Let_def
      real_sqrt_divide)

lemma example_battery_wf: "battery_wf example_battery"
  by (simp add: battery_wf_def example_battery_def real_sqrt_divide)

lemma battery_wf_efficiency_pos: "battery_wf b \<Longrightarrow> 0 < charge_efficiency b"
  by (simp add: battery_wf_def)

lemma Battery_init_wf:
  assumes "Battery_init name capacity rate s e = Inr b"
  shows "battery_wf b"
proof -
  from assms have e: "0 < e"
    by (cases "e = 0") (auto simp: Battery_init_def update_charge_values_def Let_def
        split: if_splits)
  with assms show ?thesis
    by (auto simp: Battery_init_def update_charge_values_def Let_def battery_wf_def
        split: if_splits)
qed

lemma update_charge_values_wf:
  assumes "battery_wf b"
  shows "update_charge_values b p =
           (None, b\<lparr>state_of_charge := p,
                    available_to_discharge := p * charge_efficiency b,
                    available_store_cap := (max_capacity b - p) / charge_efficiency b\<rparr>)"
  using battery_wf_efficiency_pos [OF assms]
  by (simp add: update_charge_values_def Let_def)

lemma charge_wf:
  assumes "battery_wf b"
  shows "battery_wf (snd (charge b request))"
  using assms
  by (auto simp: charge_def proposed_charge_def update_charge_values_wf battery_wf_def
      split: sum.splits)

lemma charge_ok_fields:
  assumes "charge b request = (None, b')"
  shows "0 \<le> state_of_charge b'" and "state_of_charge b' \<le> max_capacity b"
    and "max_capacity b' = max_capacity b"
  using assms
  by (auto simp: charge_def proposed_charge_def update_charge_values_def Let_def
      split: if_splits sum.splits)

lemma charge_seq_bounds:
  "\<forall>b' \<in> set (charge_seq b requests).
     0 \<le> state_of_charge b' \<and> state_of_charge b' \<le> max_capacity b \<and>
     max_capacity b' = max_capacity b"
proof (induction requests arbitrary: b)
  case Nil
  show ?case by simp
next
  case (Cons r rs)
  show ?case
  proof (cases "charge b r")
    case (Pair res b1)
    show ?thesis
    proof (cases res)
      case None
      with Pair have ok: "charge b r = (None, b1)" by simp
      from charge_ok_fields [OF ok] Cons.IH [of b1] ok show ?thesis by auto
    next
      case (Some e)
      with Pair show ?thesis by simp
    qed
  qed
qed

lemma Battery_init_fields:
  assumes "Battery_init name capacity rate s e = Inr b"
  shows "state_of_charge b = s" and "max_capacity b = capacity"
  using assms
  by (auto simp: Battery_init_def update_charge_values_def Let_def split: if_splits)

text \<open>
  C1. For a battery as the constructor and \<^verbatim>\<open>charge\<close> leave it, a request within the
  rate limit whose proposed charge stays within \<open>[0, max_capacity]\<close> is accepted, and it
  changes the state of charge by exactly \<open>request * charge_efficiency\<close> when
  \<open>request \<ge> 0\<close> and by exactly \<open>request / charge_efficiency\<close> when \<open>request < 0\<close>, where
  \<open>charge_efficiency\<close> is the square root of the round-trip efficiency.
\<close>

theorem charge_changes_state_of_charge:
  assumes "battery_wf b"
    and "\<bar>request\<bar> \<le> max_charge_rate b"
    and "0 \<le> state_of_charge b +
           (if 0 \<le> request then request * charge_efficiency b
            else request / charge_efficiency b)"
    and "state_of_charge b +
           (if 0 \<le> request then request * charge_efficiency b
            else request / charge_efficiency b) \<le> max_capacity b"
  shows "charge_efficiency b = sqrt (round_trip_efficiency b) \<and>
         fst (charge b request) = None \<and>
         state_of_charge (snd (charge b request)) =
           state_of_charge b +
             (if 0 \<le> request then request * charge_efficiency b
              else request / charge_efficiency b)"
proof -
  have pos: "0 < charge_efficiency b"
    using assms(1) by (rule battery_wf_efficiency_pos)
  have eff: "charge_efficiency b = sqrt (round_trip_efficiency b)"
    using assms(1) by (simp add: battery_wf_def)
  show ?thesis
  proof (cases "0 \<le> request")
    case True
    with assms(2-4) pos eff show ?thesis
      by (simp add: charge_def proposed_charge_def update_charge_values_wf [OF assms(1)])
  next
    case False
    with assms(2-4) pos eff show ?thesis
      by (simp add: charge_def proposed_charge_def update_charge_values_wf [OF assms(1)])
  qed
qed

theorem charge_changes_state_of_charge_witness:
  "battery_wf example_battery \<and>
   \<bar>- (1 / 4) :: real\<bar> \<le> max_charge_rate example_battery \<and>
   fst (charge example_battery (- (1 / 4))) = None \<and>
   state_of_charge (snd (charge example_battery (- (1 / 4)))) = 1 / 2 \<and>
   state_of_charge example_battery = 1"
proof -
  have h2: "\<bar>- (1 / 4) :: real\<bar> \<le> max_charge_rate example_battery"
    by (simp add: example_battery_def)
  have h3: "0 \<le> state_of_charge example_battery +
           (if 0 \<le> (- (1 / 4) :: real) then - (1 / 4) * charge_efficiency example_battery
            else - (1 / 4) / charge_efficiency example_battery)"
    by (simp add: example_battery_def)
  have h4: "state_of_charge example_battery +
           (if 0 \<le> (- (1 / 4) :: real) then - (1 / 4) * charge_efficiency example_battery
            else - (1 / 4) / charge_efficiency example_battery)
           \<le> max_capacity example_battery"
    by (simp add: example_battery_def)
  from charge_changes_state_of_charge [OF example_battery_wf h2 h3 h4] h2
  show ?thesis
    by (simp add: example_battery_wf) (simp add: example_battery_def)
qed

text \<open>
  C2. A battery constructed with an initial state of charge in \<open>[0, max_capacity]\<close>
  has its state of charge in \<open>[0, max_capacity]\<close> at construction and after every call of
  a sequence of \<^verbatim>\<open>charge\<close> calls that return without an exception; the capacity itself
  never changes.
\<close>

theorem state_of_charge_invariant:
  assumes "Battery_init name capacity rate s0 e = Inr b0"
    and "0 \<le> s0" and "s0 \<le> capacity"
  shows "\<forall>b \<in> set (b0 # charge_seq b0 requests).
           0 \<le> state_of_charge b \<and> state_of_charge b \<le> capacity \<and>
           max_capacity b = capacity"
  using charge_seq_bounds [of b0 requests] Battery_init_fields [OF assms(1)] assms(2,3)
  by auto

theorem state_of_charge_invariant_witness:
  "Battery_init ''B'' 10 4 1 (1 / 4) = Inr example_battery \<and>
   (0::real) \<le> 1 \<and> (1::real) \<le> 10 \<and>
   map state_of_charge (example_battery # charge_seq example_battery [4, - (1 / 4), 1])
     = [1, 3, 5 / 2, 3] \<and>
   0 \<le> state_of_charge (last (charge_seq example_battery [4, - (1 / 4), 1])) \<and>
   state_of_charge (last (charge_seq example_battery [4, - (1 / 4), 1])) \<le> 10 \<and>
   max_capacity (last (charge_seq example_battery [4, - (1 / 4), 1])) = 10"
proof -
  have h: "(0::real) \<le> 1" "(1::real) \<le> 10"
    by simp_all
  have run: "map state_of_charge
      (example_battery # charge_seq example_battery [4, - (1 / 4), 1]) = [1, 3, 5 / 2, 3]"
    by (simp add: charge_def proposed_charge_def update_charge_values_def Let_def
        example_battery_def)
  then have "charge_seq example_battery [4, - (1 / 4), 1] \<noteq> []"
    by auto
  then have mem: "last (charge_seq example_battery [4, - (1 / 4), 1])
      \<in> set (example_battery # charge_seq example_battery [4, - (1 / 4), 1])"
    by (rule list.set_intros(2) [OF last_in_set])
  from state_of_charge_invariant [OF example_battery_init h, of "[4, - (1 / 4), 1]"] mem
  have "0 \<le> state_of_charge (last (charge_seq example_battery [4, - (1 / 4), 1])) \<and>
   state_of_charge (last (charge_seq example_battery [4, - (1 / 4), 1])) \<le> 10 \<and>
   max_capacity (last (charge_seq example_battery [4, - (1 / 4), 1])) = 10"
    by blast
  with run example_battery_init h show ?thesis
    by blast
qed

text \<open>
  In exact arithmetic a full-rate request on a battery whose \<open>available_store_cap\<close> is
  below the rate limit proposes more than the capacity, and is refused as an overcharge
  when the capacity and the rate limit are not negative. The step from the quotient
  \<open>(max_capacity - state_of_charge) / charge_efficiency\<close> to the sum
  \<open>state_of_charge + max_charge_rate * charge_efficiency\<close> is a law of the reals, not
  of rounded arithmetic.
\<close>

lemma full_rate_overcharge_exact:
  assumes "battery_wf b" and "0 \<le> max_capacity b" and "0 \<le> max_charge_rate b"
    and "available_store_cap b < max_charge_rate b"
  shows "charge b (max_charge_rate b) = (Some OverCharge, b)"
proof -
  have pos: "0 < charge_efficiency b"
    using assms(1) by (rule battery_wf_efficiency_pos)
  have cap: "available_store_cap b = (max_capacity b - state_of_charge b) / charge_efficiency b"
    using assms(1) by (simp add: battery_wf_def)
  from assms(4) cap pos
  have "max_capacity b - state_of_charge b < max_charge_rate b * charge_efficiency b"
    by (simp add: pos_divide_less_eq)
  then have over: "max_capacity b <
      state_of_charge b + max_charge_rate b * charge_efficiency b"
    by simp
  with assms(2) have nonneg: "0 \<le> state_of_charge b + max_charge_rate b * charge_efficiency b"
    by simp
  from assms(3) over nonneg show ?thesis
    by (simp add: charge_def proposed_charge_def)
qed


text \<open>
  C10. The constructor does not look at the initial state of charge: with a positive
  round-trip efficiency it returns, for every value \<open>s\<close>, the battery whose state of
  charge is \<open>s\<close> and whose derived values are computed from \<open>s\<close>, also when \<open>s\<close> is
  below 0 or above the capacity.
\<close>

theorem Battery_init_no_validation:
  assumes "0 < e"
  shows "Battery_init name capacity rate s e =
           Inr \<lparr>model_name = name, max_capacity = capacity, max_charge_rate = rate,
                state_of_charge = s, round_trip_efficiency = e,
                charge_efficiency = sqrt e,
                available_to_discharge = s * sqrt e,
                available_store_cap = (capacity - s) / sqrt e\<rparr>"
  using assms by (simp add: Battery_init_def update_charge_values_def Let_def)

theorem Battery_init_no_validation_witness:
  "(0::real) < 1 / 4 \<and>
   (case Battery_init ''B'' 10 4 (- 5) (1 / 4) of
      Inl err \<Rightarrow> False
    | Inr b \<Rightarrow> state_of_charge b = - 5 \<and> state_of_charge b < 0 \<and>
        available_to_discharge b = - (5 / 2) \<and> available_store_cap b = 30) \<and>
   (case Battery_init ''B'' 10 4 20 (1 / 4) of
      Inl err \<Rightarrow> False
    | Inr b \<Rightarrow> state_of_charge b = 20 \<and> max_capacity b < state_of_charge b \<and>
        available_to_discharge b = 10 \<and> available_store_cap b = - 20)"
proof -
  have h: "(0::real) < 1 / 4" by simp
  from Battery_init_no_validation [OF h, of "''B''" 10 4 "- 5"]
       Battery_init_no_validation [OF h, of "''B''" 10 4 20]
  show ?thesis
    by (simp add: real_sqrt_divide)
qed

lemma Battery_init_bad_efficiency:
  "e \<le> 0 \<Longrightarrow>
     Battery_init name capacity rate s e =
       Inl (if e < 0 then ValueError else ZeroDivisionError)"
  by (simp add: Battery_init_def update_charge_values_def Let_def)

section \<open>Properties of the battery in rounded arithmetic\<close>

lemma update_charge_values_fl_exact:
  "update_charge_values_fl (\<lambda>y. y) b p = update_charge_values b p"
  by (simp add: update_charge_values_fl_def update_charge_values_def)

lemma proposed_charge_fl_exact:
  "proposed_charge_fl (\<lambda>y. y) b request = proposed_charge b request"
  by (simp add: proposed_charge_fl_def proposed_charge_def)

lemma charge_fl_exact: "charge_fl (\<lambda>y. y) b request = charge b request"
  by (simp add: charge_fl_def charge_def proposed_charge_fl_exact
      update_charge_values_fl_exact split: sum.splits)

lemma Battery_init_fl_exact:
  "Battery_init_fl (\<lambda>y. y) name capacity rate s e = Battery_init name capacity rate s e"
  by (simp add: Battery_init_fl_def Battery_init_def update_charge_values_fl_exact)

lemma Battery_init_fl_efficiency:
  assumes "Battery_init_fl rnd name capacity rate s e = Inr b"
  shows "charge_efficiency b \<noteq> 0"
  using assms
  by (auto simp: Battery_init_fl_def update_charge_values_fl_def Let_def split: if_splits)











section \<open>Properties of the controllers\<close>

lemma loc_unique:
  assumes "filter (\<lambda>r. row_name r = t) df = [r]"
  shows "loc df t column = Inr (column r)"
  using assms by (simp add: loc_def)

lemma weekend_df_saturday:
  "filter (\<lambda>r. row_name r = saturday_16) weekend_df = [flat_row saturday_16 (1 / 4) 1]"
  by (simp add: weekend_df_def flat_row_def saturday_16_def tuesday_16_def)

lemma weekend_df_tuesday:
  "filter (\<lambda>r. row_name r = tuesday_16) weekend_df = [flat_row tuesday_16 (1 / 4) 1]"
  by (simp add: weekend_df_def flat_row_def saturday_16_def tuesday_16_def)

text \<open>
  C4. For every time, series and battery state, \<^verbatim>\<open>decide\<close> of the fixed-schedule
  controller returns \<open>- min(max_charge_rate, available_to_discharge, usage)\<close> when
  the hour is in \<open>peak_hours\<close> and the day is Monday to Friday (days 0 to 4 of the
  week), the usage being that of the record the series has for the time; otherwise
  \<open>min(max_charge_rate, available_store_cap)\<close> when the hour is at least
  \<open>trough_hour\<close>; otherwise 0. The series is read in the first case only. The call
  leaves the controller as it was.
\<close>

theorem peaksimple_decide_cases:
  assumes "dayofweek t \<in> {0..6}"
  shows "(hour t \<in> set (peak_hours c) \<and> dayofweek t \<in> {0, 1, 2, 3, 4} \<and>
          filter (\<lambda>r. row_name r = t) df = [r] \<longrightarrow>
            peaksimple_decide c df t b =
              Inr (- min (max_charge_rate b)
                         (min (available_to_discharge b) (usage_kwh r)))) \<and>
         (\<not> (hour t \<in> set (peak_hours c) \<and> dayofweek t \<in> {0, 1, 2, 3, 4}) \<and>
          trough_hour c \<le> hour t \<longrightarrow>
            peaksimple_decide c df t b =
              Inr (min (max_charge_rate b) (available_store_cap b))) \<and>
         (\<not> (hour t \<in> set (peak_hours c) \<and> dayofweek t \<in> {0, 1, 2, 3, 4}) \<and>
          \<not> trough_hour c \<le> hour t \<longrightarrow>
            peaksimple_decide c df t b = Inr 0) \<and>
         decide Q (PeakSimple c) df t b = (peaksimple_decide c df t b, PeakSimple c)"
proof -
  have weekday: "dayofweek t \<in> {0, 1, 2, 3, 4} \<longleftrightarrow> dayofweek t \<le> 4"
    using assms by auto
  have peak: "peaksimple_decide c df t b =
              Inr (- min (max_charge_rate b)
                         (min (available_to_discharge b) (usage_kwh r)))"
    if "hour t \<in> set (peak_hours c)" "dayofweek t \<le> 4"
      "filter (\<lambda>r. row_name r = t) df = [r]"
    using that by (simp add: peaksimple_decide_def loc_unique)
  have trough: "peaksimple_decide c df t b =
              Inr (min (max_charge_rate b) (available_store_cap b))"
    if "\<not> (hour t \<in> set (peak_hours c) \<and> dayofweek t \<le> 4)" "trough_hour c \<le> hour t"
    using that by (auto simp: peaksimple_decide_def)
  have hold: "peaksimple_decide c df t b = Inr 0"
    if "\<not> (hour t \<in> set (peak_hours c) \<and> dayofweek t \<le> 4)" "\<not> trough_hour c \<le> hour t"
    using that by (auto simp: peaksimple_decide_def)
  have same: "decide Q (PeakSimple c) df t b = (peaksimple_decide c df t b, PeakSimple c)"
    by (simp add: decide_def)
  from peak trough hold same show ?thesis
    unfolding weekday by blast
qed

theorem peaksimple_decide_cases_witness:
  "dayofweek tuesday_16 \<in> {0..6} \<and> dayofweek sunday_1_est \<in> {0..6} \<and>
   filter (\<lambda>r. row_name r = tuesday_16) weekend_df = [flat_row tuesday_16 (1 / 4) 1] \<and>
   peaksimple_decide example_peaksimple weekend_df tuesday_16 example_battery
     = Inr (- (1 / 4)) \<and>
   peaksimple_decide example_peaksimple weekend_df saturday_16 example_battery = Inr 4 \<and>
   peaksimple_decide example_peaksimple fallback_df sunday_1_est example_battery = Inr 0 \<and>
   decide linear_quantile (PeakSimple example_peaksimple) weekend_df tuesday_16 example_battery
     = (Inr (- (1 / 4)), PeakSimple example_peaksimple)"
proof -
  have d: "dayofweek tuesday_16 \<in> {0..6}" "dayofweek saturday_16 \<in> {0..6}"
    "dayofweek sunday_1_est \<in> {0..6}"
    by (simp_all add: tuesday_16_def saturday_16_def sunday_1_est_def)
  have tue_facts: "hour tuesday_16 \<in> set (peak_hours example_peaksimple) \<and>
      dayofweek tuesday_16 \<in> {0, 1, 2, 3, 4}"
    by (simp add: tuesday_16_def example_peaksimple_def)
  have sat_facts: "\<not> (hour saturday_16 \<in> set (peak_hours example_peaksimple) \<and>
      dayofweek saturday_16 \<in> {0, 1, 2, 3, 4}) \<and>
      trough_hour example_peaksimple \<le> hour saturday_16"
    by (simp add: saturday_16_def example_peaksimple_def)
  have sun_facts: "\<not> (hour sunday_1_est \<in> set (peak_hours example_peaksimple) \<and>
      dayofweek sunday_1_est \<in> {0, 1, 2, 3, 4}) \<and>
      \<not> trough_hour example_peaksimple \<le> hour sunday_1_est"
    by (simp add: sunday_1_est_def example_peaksimple_def)
  from peaksimple_decide_cases [OF d(1), where c = example_peaksimple and df = weekend_df
      and b = example_battery and r = "flat_row tuesday_16 (1 / 4) 1"
      and Q = linear_quantile] tue_facts weekend_df_tuesday
  have tue: "peaksimple_decide example_peaksimple weekend_df tuesday_16 example_battery
      = Inr (- min (max_charge_rate example_battery)
                   (min (available_to_discharge example_battery)
                        (usage_kwh (flat_row tuesday_16 (1 / 4) 1))))"
    and dec: "decide linear_quantile (PeakSimple example_peaksimple) weekend_df tuesday_16
        example_battery
      = (peaksimple_decide example_peaksimple weekend_df tuesday_16 example_battery,
         PeakSimple example_peaksimple)"
    by blast+
  from peaksimple_decide_cases [OF d(2), where c = example_peaksimple and df = weekend_df
      and b = example_battery] sat_facts
  have sat: "peaksimple_decide example_peaksimple weekend_df saturday_16 example_battery
      = Inr (min (max_charge_rate example_battery) (available_store_cap example_battery))"
    by blast
  from peaksimple_decide_cases [OF d(3), where c = example_peaksimple and df = fallback_df
      and b = example_battery] sun_facts
  have sun: "peaksimple_decide example_peaksimple fallback_df sunday_1_est example_battery
      = Inr 0"
    by blast
  have v: "- min (max_charge_rate example_battery)
                   (min (available_to_discharge example_battery)
                        (usage_kwh (flat_row tuesday_16 (1 / 4) 1))) = - (1 / 4)"
    "min (max_charge_rate example_battery) (available_store_cap example_battery) = 4"
    by (simp_all add: example_battery_def flat_row_def)
  from tue dec sat sun d(1,3) weekend_df_tuesday show ?thesis
    unfolding v by simp
qed

text \<open>
  C5, as stated, fails: with peak hours 16 and 17 and trough hour 2, \<^verbatim>\<open>decide\<close> on a
  Saturday at 16:00 with a battery that has 0.5 kWh available to discharge returns 4 (a
  charge at the full rate of 4), not 0.
\<close>

theorem weekend_request_counterexample:
  "peak_hours example_peaksimple = [16, 17] \<and> trough_hour example_peaksimple = 2 \<and>
   hour saturday_16 = 16 \<and> dayofweek saturday_16 = 5 \<and>
   available_to_discharge example_battery = 1 / 2 \<and>
   peaksimple_decide example_peaksimple weekend_df saturday_16 example_battery = Inr 4"
  by (simp add: peaksimple_decide_def example_peaksimple_def saturday_16_def
      example_battery_def)

text \<open>
  C5, amended. With peak hours 16 and 17 and trough hour 2, \<^verbatim>\<open>decide\<close> at hour 16 of a
  Saturday returns \<open>min(max_charge_rate, available_store_cap)\<close>: the weekend exempts
  the hour from discharging, and since 16 is not before the trough hour the battery is
  charged. At hour 16 of a Tuesday, under the same battery state, it returns exactly
  \<open>- min(max_charge_rate, available_to_discharge, usage at that hour)\<close>.
\<close>

theorem weekend_exemption:
  assumes "hour t = 16"
  shows "(dayofweek t = 5 \<longrightarrow>
            peaksimple_decide example_peaksimple df t b =
              Inr (min (max_charge_rate b) (available_store_cap b))) \<and>
         (dayofweek t = 1 \<and> filter (\<lambda>r. row_name r = t) df = [r] \<longrightarrow>
            peaksimple_decide example_peaksimple df t b =
              Inr (- min (max_charge_rate b)
                         (min (available_to_discharge b) (usage_kwh r))))"
  using assms
  by (auto simp: peaksimple_decide_def example_peaksimple_def loc_def)

theorem weekend_exemption_witness:
  "hour saturday_16 = 16 \<and> dayofweek saturday_16 = 5 \<and>
   hour tuesday_16 = 16 \<and> dayofweek tuesday_16 = 1 \<and>
   peaksimple_decide example_peaksimple weekend_df saturday_16 example_battery = Inr 4 \<and>
   peaksimple_decide example_peaksimple weekend_df tuesday_16 example_battery
     = Inr (- (1 / 4))"
proof -
  have hs: "hour saturday_16 = 16" and ds: "dayofweek saturday_16 = 5"
    by (simp_all add: saturday_16_def)
  have ht: "hour tuesday_16 = 16" and dt: "dayofweek tuesday_16 = 1"
    by (simp_all add: tuesday_16_def)
  from weekend_exemption [OF hs, where df = weekend_df and b = example_battery] ds
  have sat: "peaksimple_decide example_peaksimple weekend_df saturday_16 example_battery
      = Inr 4"
    by (simp add: example_battery_def)
  from weekend_exemption [OF ht, where df = weekend_df and b = example_battery
      and r = "flat_row tuesday_16 (1 / 4) 1"]
    dt weekend_df_tuesday
  have tue: "peaksimple_decide example_peaksimple weekend_df tuesday_16 example_battery
      = Inr (- (1 / 4))"
    by (simp add: example_battery_def flat_row_def)
  from hs ds ht dt sat tue show ?thesis by simp
qed

text \<open>
  C9. For a controller type other than "daily\_threshold" and "simple\_peak",
  \<^verbatim>\<open>make_controller\<close> returns no controller: it raises (the UnboundLocalError of
  \<^verbatim>\<open>return obj\<close>). A run of \<^verbatim>\<open>simulate\<close> with such a type never returns a
  result, and when the pricing and the battery construction before it succeed, the
  exception of the run is that of \<^verbatim>\<open>make_controller\<close>: no hour is stepped.
\<close>

theorem make_controller_unknown_type:
  assumes "controller_type \<noteq> ''daily_threshold''"
    and "controller_type \<noteq> ''simple_peak''"
  shows "make_controller Q controller_type kw = Inl UnboundLocalError \<and>
         (ui_controller_type ui = controller_type \<longrightarrow>
            isl (simulate Q ui model_df) \<and>
            (simulate Q ui model_df =
               (case add_pricing ui model_df of
                  Inl e \<Rightarrow> Inl e
                | Inr result_df \<Rightarrow>
                    (case Battery_init (ui_battery_model_name ui)
                            (ui_battery_max_capacity ui) (ui_battery_max_charge_rate ui)
                            (ui_battery_initial_state_of_charge ui)
                            (ui_battery_round_trip_efficiency ui) of
                       Inl e \<Rightarrow> Inl e
                     | Inr battery \<Rightarrow> Inl UnboundLocalError))))"
  using assms
  by (auto simp: make_controller_def simulate_def split: sum.splits)

theorem make_controller_unknown_type_witness:
  "''fixed'' \<noteq> ''daily_threshold'' \<and> ''fixed'' \<noteq> ''simple_peak'' \<and>
   make_controller linear_quantile ''fixed''
     \<lparr>kw_df = Some weekend_df, kw_peak_hours = Some [16, 17], kw_trough_hour = Some 2,
      kw_thresh_high_quant = Some 1, kw_thresh_low_quant = Some 0\<rparr>
     = Inl UnboundLocalError \<and>
   simulate linear_quantile (example_ui\<lparr>ui_controller_type := ''fixed''\<rparr>) example_model_df
     = Inl UnboundLocalError"
proof -
  have n1: "''fixed'' \<noteq> ''daily_threshold''" and n2: "''fixed'' \<noteq> ''simple_peak''"
    by simp_all
  have b: "Battery_init ''B'' 10 4 1 (1 / 4) = Inr example_battery"
    by (rule example_battery_init)
  from make_controller_unknown_type [OF n1 n2, of linear_quantile
      "\<lparr>kw_df = Some weekend_df, kw_peak_hours = Some [16, 17], kw_trough_hour = Some 2,
        kw_thresh_high_quant = Some 1, kw_thresh_low_quant = Some 0\<rparr>"
      "example_ui\<lparr>ui_controller_type := ''fixed''\<rparr>" example_model_df]
  show ?thesis
    by (simp add: example_ui_def add_pricing_def b)
qed

lemma update_thresh_ok:
  assumes "update_thresh Q c df = (None, c')"
  shows "thresh_high_quant c' = thresh_high_quant c"
    and "thresh_low_quant c' = thresh_low_quant c"
    and "Q (map apparent_price df) (thresh_high_quant c) = Inr (thresh_high_price c')"
    and "Q (map apparent_price df) (thresh_low_quant c) = Inr (thresh_low_price c')"
  using assms
  by (auto simp: update_thresh_def Let_def split: sum.splits)

lemma linear_quantile_max2: "linear_quantile [1, 2] 1 = Inr 2"
  by (simp add: linear_quantile_def Let_def)

lemma linear_quantile_two_day:
  "linear_quantile [1, 2, 5, 3] 1 = Inr 5" "linear_quantile [1, 2, 5, 3] 0 = Inr 1"
  by (simp_all add: linear_quantile_def Let_def)

lemma linear_quantile_tuesday:
  "linear_quantile [5, 3] 1 = Inr 5" "linear_quantile [5, 3] 0 = Inr 3"
  by (simp_all add: linear_quantile_def Let_def)

lemma two_day_df_prices: "map apparent_price two_day_df = [1, 2, 5, 3]"
  by (simp add: two_day_df_def flat_row_def)

lemma two_day_df_monday:
  "loc_date two_day_df monday_22 = Inr [flat_row monday_22 1 1, flat_row monday_23 1 2]"
  by (simp add: loc_date_def two_day_df_def flat_row_def monday_22_def monday_23_def
      tuesday_0_def tuesday_1_def)

lemma two_day_df_tuesday:
  "filter (\<lambda>r. year (row_name r) = year tuesday_0 \<and> month (row_name r) = month tuesday_0 \<and>
               day (row_name r) = day tuesday_0) two_day_df
     = [flat_row tuesday_0 1 5, flat_row tuesday_1 1 3]"
  by (simp add: two_day_df_def flat_row_def monday_22_def monday_23_def
      tuesday_0_def tuesday_1_def)

lemma two_day_df_seed:
  "dailythresh_init linear_quantile two_day_df 1 0 =
     Inr \<lparr>thresh_high_quant = 1, thresh_low_quant = 0,
          thresh_high_price = 5, thresh_low_price = 1\<rparr>"
  by (simp add: dailythresh_init_def update_thresh_def two_day_df_prices
      linear_quantile_two_day Let_def)

text \<open>
  C6, as stated, fails. On a series that holds the apparent prices 1 and 2 of Monday
  (hours 22 and 23) and 5 and 3 of Tuesday (hours 0 and 1), the controller constructed
  with the quantiles 1 and 0 has the high threshold 5, the maximum of the whole series,
  where Monday's own maximum is 2; and \<^verbatim>\<open>decide\<close> at Monday 22:00 decides with that
  threshold and leaves it in place.
\<close>

theorem threshold_seed_counterexample:
  "dailythresh_init linear_quantile two_day_df 1 0 =
     Inr \<lparr>thresh_high_quant = 1, thresh_low_quant = 0,
          thresh_high_price = 5, thresh_low_price = 1\<rparr> \<and>
   loc_date two_day_df monday_22 = Inr [flat_row monday_22 1 1, flat_row monday_23 1 2] \<and>
   linear_quantile (map apparent_price [flat_row monday_22 1 1, flat_row monday_23 1 2]) 1
     = Inr 2 \<and>
   dailythresh_decide linear_quantile
       \<lparr>thresh_high_quant = 1, thresh_low_quant = 0,
        thresh_high_price = 5, thresh_low_price = 1\<rparr>
       two_day_df monday_22 example_battery =
     (Inr 0, \<lparr>thresh_high_quant = 1, thresh_low_quant = 0,
              thresh_high_price = 5, thresh_low_price = 1\<rparr>)"
proof -
  have q: "linear_quantile
      (map apparent_price [flat_row monday_22 1 1, flat_row monday_23 1 2]) 1 = Inr 2"
    by (simp add: flat_row_def linear_quantile_max2)
  have l: "loc two_day_df monday_22 apparent_price = Inr 1"
    by (simp add: loc_def two_day_df_def flat_row_def monday_22_def monday_23_def
        tuesday_0_def tuesday_1_def)
  have h: "hour monday_22 = 22"
    by (simp add: monday_22_def)
  have d: "dailythresh_decide linear_quantile
       \<lparr>thresh_high_quant = 1, thresh_low_quant = 0,
        thresh_high_price = 5, thresh_low_price = 1\<rparr>
       two_day_df monday_22 example_battery =
     (Inr 0, \<lparr>thresh_high_quant = 1, thresh_low_quant = 0,
              thresh_high_price = 5, thresh_low_price = 1\<rparr>)"
    by (simp add: dailythresh_decide_def dailythresh_request_def l h)
  from two_day_df_seed two_day_df_monday q d show ?thesis
    by simp
qed

text \<open>
  C6, amended. At construction the thresholds are the configured high and low quantiles
  of the apparent prices of the whole series the constructor is given. A \<^verbatim>\<open>decide\<close>
  call at hour 0 that returns a request has recomputed them as the same quantiles of the
  apparent prices of the rows of that calendar day only, and has decided with them. A
  \<^verbatim>\<open>decide\<close> call at any other hour leaves the thresholds as they were. So the
  thresholds in effect at a time are those of its own day from the day's hour-0 call
  on, and those of the whole series before the first such call.
\<close>

theorem dailythresh_thresholds:
  "(dailythresh_init Q df hq lq = Inr c0 \<longrightarrow>
      thresh_high_quant c0 = hq \<and> thresh_low_quant c0 = lq \<and>
      Q (map apparent_price df) hq = Inr (thresh_high_price c0) \<and>
      Q (map apparent_price df) lq = Inr (thresh_low_price c0)) \<and>
   (hour t = 0 \<and> dailythresh_decide Q c df t b = (Inr request, c') \<longrightarrow>
      thresh_high_quant c' = thresh_high_quant c \<and>
      thresh_low_quant c' = thresh_low_quant c \<and>
      Q (map apparent_price
           (filter (\<lambda>r. year (row_name r) = year t \<and> month (row_name r) = month t \<and>
                         day (row_name r) = day t) df))
        (thresh_high_quant c) = Inr (thresh_high_price c') \<and>
      Q (map apparent_price
           (filter (\<lambda>r. year (row_name r) = year t \<and> month (row_name r) = month t \<and>
                         day (row_name r) = day t) df))
        (thresh_low_quant c) = Inr (thresh_low_price c') \<and>
      dailythresh_request c' df t b = Inr request) \<and>
   (hour t \<noteq> 0 \<longrightarrow>
      dailythresh_decide Q c df t b = (dailythresh_request c df t b, c))"
proof -
  have seed: "thresh_high_quant c0 = hq \<and> thresh_low_quant c0 = lq \<and>
      Q (map apparent_price df) hq = Inr (thresh_high_price c0) \<and>
      Q (map apparent_price df) lq = Inr (thresh_low_price c0)"
    if "dailythresh_init Q df hq lq = Inr c0"
  proof -
    from that have "update_thresh Q
        \<lparr>thresh_high_quant = hq, thresh_low_quant = lq,
         thresh_high_price = 1, thresh_low_price = 0\<rparr> df = (None, c0)"
      by (auto simp: dailythresh_init_def split: prod.splits option.splits)
    from update_thresh_ok [OF this] show ?thesis by simp
  qed
  have midnight: "thresh_high_quant c' = thresh_high_quant c \<and>
      thresh_low_quant c' = thresh_low_quant c \<and>
      Q (map apparent_price
           (filter (\<lambda>r. year (row_name r) = year t \<and> month (row_name r) = month t \<and>
                         day (row_name r) = day t) df))
        (thresh_high_quant c) = Inr (thresh_high_price c') \<and>
      Q (map apparent_price
           (filter (\<lambda>r. year (row_name r) = year t \<and> month (row_name r) = month t \<and>
                         day (row_name r) = day t) df))
        (thresh_low_quant c) = Inr (thresh_low_price c') \<and>
      dailythresh_request c' df t b = Inr request"
    if h: "hour t = 0" and d: "dailythresh_decide Q c df t b = (Inr request, c')"
  proof -
    let ?day = "filter (\<lambda>r. year (row_name r) = year t \<and> month (row_name r) = month t \<and>
                         day (row_name r) = day t) df"
    from d h have ne: "?day \<noteq> []"
      by (auto simp: dailythresh_decide_def loc_date_def split: list.splits)
    then have ld: "loc_date df t = Inr ?day"
      by (simp add: loc_date_def split: list.splits)
    from d h ld have u: "update_thresh Q c ?day = (None, c')"
      and r: "dailythresh_request c' df t b = Inr request"
      by (auto simp: dailythresh_decide_def split: prod.splits option.splits)
    from update_thresh_ok [OF u] r show ?thesis by simp
  qed
  have other: "dailythresh_decide Q c df t b = (dailythresh_request c df t b, c)"
    if "hour t \<noteq> 0"
    using that by (simp add: dailythresh_decide_def)
  from seed midnight other show ?thesis by blast
qed

theorem dailythresh_thresholds_witness:
  "dailythresh_init linear_quantile two_day_df 1 0 =
     Inr \<lparr>thresh_high_quant = 1, thresh_low_quant = 0,
          thresh_high_price = 5, thresh_low_price = 1\<rparr> \<and>
   linear_quantile (map apparent_price two_day_df) 1 = Inr 5 \<and>
   hour tuesday_0 = 0 \<and>
   dailythresh_decide linear_quantile
       \<lparr>thresh_high_quant = 1, thresh_low_quant = 0,
        thresh_high_price = 5, thresh_low_price = 1\<rparr>
       two_day_df tuesday_0 example_battery =
     (Inr 0, \<lparr>thresh_high_quant = 1, thresh_low_quant = 0,
              thresh_high_price = 5, thresh_low_price = 3\<rparr>) \<and>
   linear_quantile (map apparent_price [flat_row tuesday_0 1 5, flat_row tuesday_1 1 3]) 0
     = Inr 3 \<and>
   hour monday_23 \<noteq> 0 \<and>
   snd (dailythresh_decide linear_quantile
       \<lparr>thresh_high_quant = 1, thresh_low_quant = 0,
        thresh_high_price = 5, thresh_low_price = 1\<rparr>
       two_day_df monday_23 example_battery) =
     \<lparr>thresh_high_quant = 1, thresh_low_quant = 0,
      thresh_high_price = 5, thresh_low_price = 1\<rparr>"
proof -
  let ?c = "\<lparr>thresh_high_quant = 1, thresh_low_quant = 0,
        thresh_high_price = 5, thresh_low_price = 1\<rparr> :: controller_dailythresh"
  let ?c' = "\<lparr>thresh_high_quant = 1, thresh_low_quant = 0,
        thresh_high_price = 5, thresh_low_price = 3\<rparr> :: controller_dailythresh"
  have h0: "hour tuesday_0 = 0" and h23: "hour monday_23 \<noteq> 0"
    by (simp_all add: tuesday_0_def monday_23_def)
  have ld: "loc_date two_day_df tuesday_0 = Inr [flat_row tuesday_0 1 5, flat_row tuesday_1 1 3]"
    by (simp add: loc_date_def two_day_df_tuesday)
  have up: "update_thresh linear_quantile ?c [flat_row tuesday_0 1 5, flat_row tuesday_1 1 3]
      = (None, ?c')"
    by (simp add: update_thresh_def flat_row_def linear_quantile_tuesday Let_def)
  have l: "loc two_day_df tuesday_0 apparent_price = Inr 5"
    by (simp add: loc_def two_day_df_def flat_row_def monday_22_def monday_23_def
        tuesday_0_def tuesday_1_def)
  have d: "dailythresh_decide linear_quantile ?c two_day_df tuesday_0 example_battery
      = (Inr 0, ?c')"
    by (simp add: dailythresh_decide_def h0 ld up dailythresh_request_def l)
  from dailythresh_thresholds [of linear_quantile two_day_df 1 0 ?c tuesday_0 ?c
      example_battery 0 ?c'] two_day_df_seed h0 d
  have a: "linear_quantile (map apparent_price two_day_df) 1 = Inr 5"
    and b: "linear_quantile (map apparent_price
        (filter (\<lambda>r. year (row_name r) = year tuesday_0 \<and>
                      month (row_name r) = month tuesday_0 \<and>
                      day (row_name r) = day tuesday_0) two_day_df)) 0 = Inr 3"
    by simp_all
  from dailythresh_thresholds [of linear_quantile two_day_df 1 0 ?c monday_23 ?c
      example_battery 0 ?c'] h23
  have c: "snd (dailythresh_decide linear_quantile ?c two_day_df monday_23 example_battery)
      = ?c"
    by simp
  from two_day_df_seed a b c d h0 h23 show ?thesis
    by (simp add: two_day_df_tuesday)
qed

section \<open>Properties of the simulation driver\<close>









end
